theory Spec2Isabelle
  imports Main
begin

section \<open>Python values, exceptions and dictionaries\<close>

text \<open>
  The positional arguments of the constructor are arbitrary Python objects, and the
  constructor inspects them (\<^verbatim>\<open>isinstance(args[0], list)\<close>), so they get a datatype.
  A list is the only unhashable object here; a tuple is hashable when its items are.
\<close>

datatype pyobj =
    PyNone
  | PyInt int
  | PyStr string
  | PyTuple "pyobj list"
  | PyList "pyobj list"

fun hashable :: "pyobj \<Rightarrow> bool" where
  "hashable PyNone = True"
| "hashable (PyInt i) = True"
| "hashable (PyStr s) = True"
| "hashable (PyTuple xs) = list_all hashable xs"
| "hashable (PyList xs) = False"

text \<open>Truth value of an object, as the \<^verbatim>\<open>with\<close> statement tests what \<^verbatim>\<open>__exit__\<close> returns.\<close>

fun truthy :: "pyobj \<Rightarrow> bool" where
  "truthy PyNone = False"
| "truthy (PyInt i) = (i \<noteq> 0)"
| "truthy (PyStr s) = (s \<noteq> [])"
| "truthy (PyTuple xs) = (xs \<noteq> [])"
| "truthy (PyList xs) = (xs \<noteq> [])"

datatype exn =
    ValueError
  | KeyError pyobj
  | TypeError
  | AttributeError
  | Exception string

text \<open>
  A dictionary maps hashable objects to values. The values bound to variables are never
  inspected by the scope guard, so their type stays a parameter \<open>'v\<close>: it stands for
  whatever a binding holds (in Python, a reference to an object). The caller's
  \<^verbatim>\<open>f_locals\<close> is such a dictionary, keyed by the variable names (\<open>PyStr\<close>).
\<close>

type_synonym 'v dict = "pyobj \<rightharpoonup> 'v"

text \<open>\<^verbatim>\<open>name in d\<close>: hashes the key first, which fails on an unhashable one.\<close>

definition contains :: "'v dict \<Rightarrow> pyobj \<Rightarrow> exn + bool" where
  "contains d name =
     (if \<not> hashable name then Inl TypeError
      else (case d name of None \<Rightarrow> Inr False | Some v \<Rightarrow> Inr True))"

text \<open>\<^verbatim>\<open>d[name]\<close>: raises \<^verbatim>\<open>KeyError\<close> on a missing key.\<close>

definition getitem :: "'v dict \<Rightarrow> pyobj \<Rightarrow> exn + 'v" where
  "getitem d name =
     (if \<not> hashable name then Inl TypeError
      else (case d name of None \<Rightarrow> Inl (KeyError name) | Some v \<Rightarrow> Inr v))"

text \<open>\<^verbatim>\<open>del d[name]\<close>: raises \<^verbatim>\<open>KeyError\<close> on a missing key, and then leaves \<open>d\<close> as it is.\<close>

definition delitem :: "'v dict \<Rightarrow> pyobj \<Rightarrow> (exn + unit) \<times> 'v dict" where
  "delitem d name =
     (if \<not> hashable name then (Inl TypeError, d)
      else (case d name of
              None \<Rightarrow> (Inl (KeyError name), d)
            | Some v \<Rightarrow> (Inr (), d(name := None))))"

text \<open>\<^verbatim>\<open>d.update(pairs)\<close> and \<^verbatim>\<open>dict(pairs)\<close>: the pairs are stored in order, a later
  one overwriting an earlier one with the same key.\<close>

fun update_items :: "'v dict \<Rightarrow> (pyobj \<times> 'v) list \<Rightarrow> 'v dict" where
  "update_items d [] = d"
| "update_items d ((k, v) # kvs) = update_items (d(k \<mapsto> v)) kvs"

text \<open>\<^verbatim>\<open>d.update(other)\<close> for a dictionary \<open>other\<close>: every key of \<open>other\<close> wins.\<close>

definition update_dict :: "'v dict \<Rightarrow> 'v dict \<Rightarrow> 'v dict" where
  "update_dict d other = d ++ other"

text \<open>
  Keyword arguments arrive as a dictionary with string keys, in the order they were
  written. It is kept as the list of its items; Python rejects a repeated keyword before
  the call, so the keys of a real \<^verbatim>\<open>kwargs\<close> are distinct.
\<close>

type_synonym 'v kwargs = "(string \<times> 'v) list"

definition kwargs_items :: "'v kwargs \<Rightarrow> (pyobj \<times> 'v) list" where
  "kwargs_items kw = map (\<lambda>(k, v). (PyStr k, v)) kw"

definition kwargs_keys :: "'v kwargs \<Rightarrow> pyobj list" where
  "kwargs_keys kw = map (\<lambda>(k, v). PyStr k) kw"

section \<open>The class \<open>ScopeContextManager\<close>\<close>

text \<open>
  The attributes of an instance. \<open>vars_to_preserve\<close> is a Python list or \<^verbatim>\<open>None\<close>;
  \<open>old_locals\<close> does not exist before \<^verbatim>\<open>__enter__\<close> has run, and reading it then raises
  \<^verbatim>\<open>AttributeError\<close>.
\<close>

record 'v ScopeContextManager =
  initial_values :: "'v kwargs"
  vars_to_preserve :: "pyobj list option"
  old_locals :: "'v dict option"

text \<open>
  \<^verbatim>\<open>__init__(self, *args, **kwargs)\<close>. The call binds the new instance to the first
  parameter \<open>self\<close>, so a keyword argument named \<open>self\<close> is a second value for that
  parameter: Python raises \<^verbatim>\<open>TypeError\<close> and the body does not run. Every other keyword
  goes to \<open>kwargs\<close>. The method does not look at the caller's frame.
\<close>

definition ScopeContextManager_init ::
  "pyobj list \<Rightarrow> 'v kwargs \<Rightarrow> exn + 'v ScopeContextManager" where
  "ScopeContextManager_init args kwargs =
     (if ''self'' \<in> set (map fst kwargs) then Inl TypeError
      else if length args = 0 then
        (if length kwargs = 0 then
           Inr \<lparr>initial_values = kwargs, vars_to_preserve = Some [], old_locals = None\<rparr>
         else
           Inr \<lparr>initial_values = kwargs, vars_to_preserve = None, old_locals = None\<rparr>)
      else
        (case args of
           [PyList names] \<Rightarrow>
             Inr \<lparr>initial_values = kwargs, vars_to_preserve = Some names, old_locals = None\<rparr>
         | _ \<Rightarrow> Inl ValueError))"

text \<open>
  \<^verbatim>\<open>__enter__(self)\<close>, on the caller's locals \<open>l\<close>: first \<^verbatim>\<open>self.old_locals = l.copy()\<close>,
  then \<^verbatim>\<open>l.update(self.initial_values)\<close>. The result is the instance and the locals after
  the call.
\<close>

definition ScopeContextManager_enter ::
  "'v ScopeContextManager \<Rightarrow> 'v dict \<Rightarrow> 'v ScopeContextManager \<times> 'v dict" where
  "ScopeContextManager_enter self l =
     (let copy = l;
          self = self\<lparr>old_locals := Some copy\<rparr>;
          l = update_items l (kwargs_items (initial_values self))
      in (self, l))"

text \<open>
  The generator \<^verbatim>\<open>(name, l[name]) for name in self.vars_to_preserve if name in l\<close>,
  consumed by \<^verbatim>\<open>dict\<close>: the items in order, or the first error.
\<close>

fun preserved_items :: "'v dict \<Rightarrow> pyobj list \<Rightarrow> exn + (pyobj \<times> 'v) list" where
  "preserved_items l [] = Inr []"
| "preserved_items l (name # names) =
     (case contains l name of
        Inl e \<Rightarrow> Inl e
      | Inr False \<Rightarrow> preserved_items l names
      | Inr True \<Rightarrow>
          (case getitem l name of
             Inl e \<Rightarrow> Inl e
           | Inr v \<Rightarrow>
               (case preserved_items l names of
                  Inl e \<Rightarrow> Inl e
                | Inr items \<Rightarrow> Inr ((name, v) # items))))"

text \<open>
  The loop of the keyword-only branch, over the keys of \<^verbatim>\<open>self.initial_values\<close>:
  \<^verbatim>\<open>if name in self.old_locals: l[name] = self.old_locals[name]\<close>, \<^verbatim>\<open>else: del l[name]\<close>.
  An error leaves the loop with the locals as they are at that moment.
\<close>

fun restore_initial ::
  "'v dict option \<Rightarrow> pyobj list \<Rightarrow> 'v dict \<Rightarrow> (exn + unit) \<times> 'v dict" where
  "restore_initial old [] l = (Inr (), l)"
| "restore_initial old (name # names) l =
     (case old of
        None \<Rightarrow> (Inl AttributeError, l)
      | Some old_l \<Rightarrow>
          (case contains old_l name of
             Inl e \<Rightarrow> (Inl e, l)
           | Inr True \<Rightarrow>
               (case getitem old_l name of
                  Inl e \<Rightarrow> (Inl e, l)
                | Inr v \<Rightarrow> restore_initial old names (l(name \<mapsto> v)))
           | Inr False \<Rightarrow>
               (case delitem l name of
                  (Inl e, l') \<Rightarrow> (Inl e, l')
                | (Inr u, l') \<Rightarrow> restore_initial old names l')))"

text \<open>
  \<^verbatim>\<open>__exit__(self, exc_type, exc_msg, exc_tb)\<close>, on the caller's locals \<open>l\<close>. The three
  exception arguments are one \<open>exn option\<close>: \<open>None\<close> when the block ended normally.
  The method has no \<^verbatim>\<open>return\<close>, so a call that completes returns \<^verbatim>\<open>None\<close>.
\<close>

definition ScopeContextManager_exit ::
  "'v ScopeContextManager \<Rightarrow> exn option \<Rightarrow> 'v dict \<Rightarrow> (exn + pyobj) \<times> 'v dict" where
  "ScopeContextManager_exit self exc l =
     (case vars_to_preserve self of
        Some names \<Rightarrow>
          (case preserved_items l names of
             Inl e \<Rightarrow> (Inl e, l)
           | Inr preserved \<Rightarrow>
               (let l = Map.empty in
                  (case old_locals self of
                     None \<Rightarrow> (Inl AttributeError, l)
                   | Some old_l \<Rightarrow>
                       (let l = update_dict l old_l;
                            l = update_items l preserved
                        in (Inr PyNone, l)))))
      | None \<Rightarrow>
          (case restore_initial (old_locals self) (kwargs_keys (initial_values self)) l of
             (Inl e, l') \<Rightarrow> (Inl e, l')
           | (Inr u, l') \<Rightarrow> (Inr PyNone, l')))"

section \<open>The \<^verbatim>\<open>with\<close> statement\<close>

text \<open>
  A block is any function on the locals that ends normally (\<open>None\<close>) or raises.
  \<^verbatim>\<open>with mgr: block\<close> calls \<^verbatim>\<open>mgr.__enter__()\<close>, runs the block, and calls
  \<^verbatim>\<open>mgr.__exit__\<close> with the block's exception, if any. An exception of the block is
  raised again after \<^verbatim>\<open>__exit__\<close> unless \<^verbatim>\<open>__exit__\<close> returned a true value; an exception
  of \<^verbatim>\<open>__exit__\<close> itself replaces it.
\<close>

type_synonym 'v block = "'v dict \<Rightarrow> exn option \<times> 'v dict"

definition with_guard ::
  "'v ScopeContextManager \<Rightarrow> 'v block \<Rightarrow> 'v dict
     \<Rightarrow> exn option \<times> 'v ScopeContextManager \<times> 'v dict" where
  "with_guard mgr block l =
     (case ScopeContextManager_enter mgr l of
        (mgr', l1) \<Rightarrow>
          (case block l1 of
             (exc, l2) \<Rightarrow>
               (case ScopeContextManager_exit mgr' exc l2 of
                  (Inl e, l3) \<Rightarrow> (Some e, mgr', l3)
                | (Inr ret, l3) \<Rightarrow>
                    (if truthy ret then (None, mgr', l3) else (exc, mgr', l3)))))"

text \<open>\<^verbatim>\<open>with scope(*args, **kwargs): block\<close>: an error of the constructor is raised before
  anything is entered.\<close>

definition with_scope ::
  "pyobj list \<Rightarrow> 'v kwargs \<Rightarrow> 'v block \<Rightarrow> 'v dict \<Rightarrow> exn option \<times> 'v dict" where
  "with_scope args kwargs block l =
     (case ScopeContextManager_init args kwargs of
        Inl e \<Rightarrow> (Some e, l)
      | Inr mgr \<Rightarrow> (case with_guard mgr block l of (exc, mgr', l') \<Rightarrow> (exc, l')))"

section \<open>Guards as objects\<close>

text \<open>
  An instance is an object: \<^verbatim>\<open>__enter__\<close> assigns its attribute \<open>old_locals\<close>, and the
  same instance can head more than one \<^verbatim>\<open>with\<close> statement. The store maps the identity
  of an instance to its attributes; a statement transforms the store and the locals.
\<close>

type_synonym 'v store = "nat \<Rightarrow> 'v ScopeContextManager"

definition with_stmt ::
  "nat \<Rightarrow> 'v block \<Rightarrow> 'v store \<times> 'v dict \<Rightarrow> exn option \<times> 'v store \<times> 'v dict" where
  "with_stmt p block s =
     (case s of
        (h, l) \<Rightarrow>
          (case with_guard (h p) block l of
             (exc, mgr', l') \<Rightarrow> (exc, h(p := mgr'), l')))"

text \<open>Two \<^verbatim>\<open>with\<close> statements one after the other: an exception that leaves the first
  one skips the second.\<close>

definition two_scopes ::
  "nat \<Rightarrow> 'v block \<Rightarrow> nat \<Rightarrow> 'v block \<Rightarrow> 'v store \<times> 'v dict
     \<Rightarrow> exn option \<times> 'v store \<times> 'v dict" where
  "two_scopes p1 block1 p2 block2 s =
     (case with_stmt p1 block1 s of
        (Some e, h1, l1) \<Rightarrow> (Some e, h1, l1)
      | (None, h1, l1) \<Rightarrow> with_stmt p2 block2 (h1, l1))"

text \<open>
  What one guard does to a mapping, from its configuration alone: entry, the block, and
  the exit rule, on a fresh instance with these two attributes.
\<close>

definition scope_effect ::
  "'v kwargs \<Rightarrow> pyobj list option \<Rightarrow> 'v block \<Rightarrow> 'v dict \<Rightarrow> exn option \<times> 'v dict" where
  "scope_effect kw preserve block l =
     (case with_guard \<lparr>initial_values = kw, vars_to_preserve = preserve, old_locals = None\<rparr>
             block l of
        (exc, mgr', l') \<Rightarrow> (exc, l'))"

section \<open>Closed forms used in the proofs\<close>

text \<open>The items the generator of the preserve-list branch yields when no key fails.\<close>

definition items_of :: "'v dict \<Rightarrow> pyobj list \<Rightarrow> (pyobj \<times> 'v) list" where
  "items_of l names =
     concat (map (\<lambda>n. case l n of None \<Rightarrow> [] | Some v \<Rightarrow> [(n, v)]) names)"

section \<open>The examples of the docstring\<close>

text \<open>\<^verbatim>\<open>a, b = 7, 9\<close> before the scope.\<close>

definition pre_scope :: "int dict" where
  "pre_scope = [PyStr ''a'' \<mapsto> 7, PyStr ''b'' \<mapsto> 9]"

text \<open>\<^verbatim>\<open>a, b = 3, 5; c = 8\<close>\<close>

definition assign_abc :: "int block" where
  "assign_abc l = (None, l(PyStr ''a'' \<mapsto> 3, PyStr ''b'' \<mapsto> 5, PyStr ''c'' \<mapsto> 8))"

text \<open>\<^verbatim>\<open>c = a + b\<close>, which needs both names bound.\<close>

definition assign_c_sum :: "int block" where
  "assign_c_sum l =
     (case l (PyStr ''a'') of
        None \<Rightarrow> (Some (Exception ''NameError''), l)
      | Some x \<Rightarrow>
          (case l (PyStr ''b'') of
             None \<Rightarrow> (Some (Exception ''NameError''), l)
           | Some y \<Rightarrow> (None, l(PyStr ''c'' \<mapsto> x + y))))"

text \<open>\<^verbatim>\<open>b = 5; c = a + b\<close>\<close>

definition assign_b_then_c_sum :: "int block" where
  "assign_b_then_c_sum l = assign_c_sum (l(PyStr ''b'' \<mapsto> 5))"

text \<open>\<^verbatim>\<open>del n\<close>, for a variable name \<open>n\<close>.\<close>

definition del_name :: "string \<Rightarrow> int block" where
  "del_name n l =
     (case l (PyStr n) of
        None \<Rightarrow> (Some (Exception ''NameError''), l)
      | Some v \<Rightarrow> (None, l(PyStr n := None)))"

text \<open>\<^verbatim>\<open>del n; raise Exception('boom')\<close>\<close>

definition del_name_then_raise :: "string \<Rightarrow> int block" where
  "del_name_then_raise n l =
     (case del_name n l of
        (None, l') \<Rightarrow> (Some (Exception ''boom''), l')
      | (Some e, l') \<Rightarrow> (Some e, l'))"

text \<open>\<^verbatim>\<open>a, b = 3, 5; c = 8; raise Exception('boom')\<close>\<close>

definition assign_abc_then_raise :: "int block" where
  "assign_abc_then_raise l = (Some (Exception ''boom''), snd (assign_abc l))"

text \<open>Two instances: object 0 is \<^verbatim>\<open>scope(a=3)\<close>, every other one is \<^verbatim>\<open>scope(['c'])\<close>.\<close>

definition example_guards :: "int store" where
  "example_guards p =
     (if p = 0 then
        \<lparr>initial_values = [(''a'', 3)], vars_to_preserve = None, old_locals = None\<rparr>
      else
        \<lparr>initial_values = [], vars_to_preserve = Some [PyStr ''c''], old_locals = None\<rparr>)"

section \<open>Dictionary lemmas\<close>

lemma update_items_map_of: "update_items d kvs = d ++ map_of (rev kvs)"
proof (induction kvs arbitrary: d)
  case Nil
  then show ?case by simp
next
  case (Cons kv kvs)
  obtain k v where kv: "kv = (k, v)" by (cases kv)
  have "update_items d (kv # kvs) = update_items (d(k \<mapsto> v)) kvs"
    using kv by simp
  also have "\<dots> = d(k \<mapsto> v) ++ map_of (rev kvs)"
    by (rule Cons)
  also have "\<dots> = d ++ (map_of [(k, v)] ++ map_of (rev kvs))"
    by (simp add: map_add_assoc [symmetric])
  also have "\<dots> = d ++ map_of (rev (kv # kvs))"
    using kv by simp
  finally show ?case .
qed

lemma map_of_rev_distinct:
  "distinct (map fst xs) \<Longrightarrow> map_of (rev xs) = map_of xs"
  by (rule map_of_inject_set [THEN iffD2]) (simp_all add: rev_map [symmetric])

lemma map_of_kwargs_items: "map_of (kwargs_items kw) (PyStr n) = map_of kw n"
  by (induction kw) (auto simp: kwargs_items_def)

text \<open>The generator fails exactly on an unhashable entry of the list, and never with
  \<^verbatim>\<open>KeyError\<close>: \<^verbatim>\<open>l[name]\<close> is only reached behind \<^verbatim>\<open>name in l\<close>.\<close>

lemma preserved_items_eq:
  "preserved_items l names =
     (if list_all hashable names then Inr (items_of l names) else Inl TypeError)"
  by (induction names)
    (auto simp: items_of_def contains_def getitem_def split: option.splits)

lemma update_items_items_of:
  "update_items d (items_of l names) k =
     (if k \<in> set names \<and> l k \<noteq> None then l k else d k)"
  by (induction names arbitrary: d) (auto simp: items_of_def split: option.splits)

section \<open>The two methods in closed form\<close>

lemma enter_eq:
  "ScopeContextManager_enter mgr l =
     (mgr\<lparr>old_locals := Some l\<rparr>, l ++ map_of (rev (kwargs_items (initial_values mgr))))"
  by (simp add: ScopeContextManager_enter_def update_items_map_of)

lemma exit_preserve_list:
  "ScopeContextManager_exit
     \<lparr>initial_values = kw, vars_to_preserve = Some names, old_locals = Some old\<rparr> exc l =
   (if list_all hashable names
    then (Inr PyNone, (\<lambda>k. if k \<in> set names \<and> l k \<noteq> None then l k else old k))
    else (Inl TypeError, l))"
  by (auto simp: ScopeContextManager_exit_def preserved_items_eq update_dict_def
      update_items_items_of fun_eq_iff)

text \<open>The keyword-only loop completes when the keys are distinct and every key that
  was not bound before the scope is still bound.\<close>

lemma restore_initial_ok:
  "distinct names \<Longrightarrow> list_all hashable names \<Longrightarrow>
   (\<forall>n \<in> set names. old n = None \<longrightarrow> l n \<noteq> None) \<Longrightarrow>
   restore_initial (Some old) names l =
     (Inr (), (\<lambda>k. if k \<in> set names then old k else l k))"
proof (induction names arbitrary: l)
  case Nil
  then show ?case by simp
next
  case (Cons n names)
  show ?case
  proof (cases "old n")
    case None
    with Cons.prems obtain v where lv: "l n = Some v" by auto
    have "restore_initial (Some old) names (l(n := None)) =
            (Inr (), (\<lambda>k. if k \<in> set names then old k else (l(n := None)) k))"
      using Cons.prems by (intro Cons.IH) auto
    with None lv Cons.prems show ?thesis
      by (auto simp: contains_def delitem_def fun_eq_iff)
  next
    case (Some v)
    have "restore_initial (Some old) names (l(n \<mapsto> v)) =
            (Inr (), (\<lambda>k. if k \<in> set names then old k else (l(n \<mapsto> v)) k))"
      using Cons.prems by (intro Cons.IH) auto
    with Some Cons.prems show ?thesis
      by (auto simp: contains_def getitem_def fun_eq_iff)
  qed
qed

lemma keyword_exit_eq:
  "distinct (map fst kw) \<Longrightarrow>
   (\<forall>n \<in> set (map fst kw). old (PyStr n) = None \<longrightarrow> l (PyStr n) \<noteq> None) \<Longrightarrow>
   ScopeContextManager_exit
     \<lparr>initial_values = kw, vars_to_preserve = None, old_locals = Some old\<rparr> exc l =
   (Inr PyNone, (\<lambda>k. if k \<in> PyStr ` set (map fst kw) then old k else l k))"
proof -
  assume d: "distinct (map fst kw)"
    and b: "\<forall>n \<in> set (map fst kw). old (PyStr n) = None \<longrightarrow> l (PyStr n) \<noteq> None"
  have keys: "kwargs_keys kw = map PyStr (map fst kw)"
    by (simp add: kwargs_keys_def case_prod_beta)
  have "restore_initial (Some old) (kwargs_keys kw) l =
      (Inr (), (\<lambda>k. if k \<in> set (kwargs_keys kw) then old k else l k))"
    using d b by (intro restore_initial_ok) (auto simp: keys distinct_map inj_on_def list_all_iff)
  then show ?thesis
    by (simp add: ScopeContextManager_exit_def keys image_image)
qed

text \<open>\<^verbatim>\<open>__exit__\<close> never reads its three exception arguments, and has no \<^verbatim>\<open>return\<close>.\<close>

lemma exit_ignores_exception:
  "ScopeContextManager_exit mgr exc l = ScopeContextManager_exit mgr None l"
  by (simp add: ScopeContextManager_exit_def)

lemma exit_returns_None:
  "ScopeContextManager_exit mgr exc l = (Inr ret, l') \<Longrightarrow> ret = PyNone"
  by (auto simp: ScopeContextManager_exit_def Let_def split: option.splits sum.splits prod.splits)

text \<open>\<^verbatim>\<open>__enter__\<close> overwrites \<open>old_locals\<close>, so what an instance held there before does
  not matter to a \<^verbatim>\<open>with\<close> statement.\<close>

lemma enter_fresh:
  "ScopeContextManager_enter mgr l =
     ScopeContextManager_enter
       \<lparr>initial_values = initial_values mgr, vars_to_preserve = vars_to_preserve mgr,
        old_locals = None\<rparr> l"
  by (cases mgr) (simp add: ScopeContextManager_enter_def)

lemma with_guard_fresh:
  "with_guard mgr block l =
     with_guard
       \<lparr>initial_values = initial_values mgr, vars_to_preserve = vars_to_preserve mgr,
        old_locals = None\<rparr> block l"
  unfolding with_guard_def by (subst enter_fresh) (rule refl)

lemma with_guard_stale:
  "(case with_guard mgr block l of (exc, mgr', l') \<Rightarrow> (exc, l')) =
     scope_effect (initial_values mgr) (vars_to_preserve mgr) block l"
  unfolding scope_effect_def by (subst with_guard_fresh) (rule refl)

lemma with_guard_config:
  "with_guard mgr block l = (exc, mgr', l') \<Longrightarrow>
     initial_values mgr' = initial_values mgr \<and> vars_to_preserve mgr' = vars_to_preserve mgr"
  by (auto simp: with_guard_def ScopeContextManager_enter_def Let_def case_prod_beta
      split: sum.splits if_splits)

section \<open>Full-reset mode\<close>

text \<open>
  C2. A guard constructed with no positional and no keyword argument: construction
  succeeds, entry leaves the locals as they are, and for every mapping \<open>l2\<close> the block may
  leave behind (and whether or not it raised), exit completes and the locals are exactly
  the pre-scope mapping \<open>l\<close> again: the same names, each with its pre-scope value.
\<close>

theorem full_reset_round_trip:
  "\<exists>mgr. ScopeContextManager_init [] ([] :: 'v kwargs) = Inr mgr
     \<and> snd (ScopeContextManager_enter mgr l) = l
     \<and> ScopeContextManager_exit (fst (ScopeContextManager_enter mgr l)) exc l2 = (Inr PyNone, l)
     \<and> dom (snd (ScopeContextManager_exit (fst (ScopeContextManager_enter mgr l)) exc l2)) = dom l"
  by (simp add: ScopeContextManager_init_def enter_eq kwargs_items_def exit_preserve_list)

text \<open>The first example of the docstring: \<open>a\<close> and \<open>b\<close> are back at 7 and 9, and \<open>c\<close>,
  which the block defined, is gone.\<close>

theorem full_reset_round_trip_witness:
  "with_scope [] [] assign_abc pre_scope = (None, pre_scope)
   \<and> snd (assign_abc pre_scope) (PyStr ''c'') = Some 8
   \<and> pre_scope (PyStr ''c'') = None"
  using full_reset_round_trip [of pre_scope None "snd (assign_abc pre_scope)"]
  by (auto simp: with_scope_def with_guard_def assign_abc_def case_prod_beta pre_scope_def)

section \<open>Preserve-list mode\<close>

text \<open>
  C1, as the code has it. A guard constructed with one positional list of names \<open>ns\<close>
  (and any keyword arguments the call accepts, that is, none named \<open>self\<close>):
  construction succeeds, and for every pre-scope mapping
  \<open>l\<close> and every mapping \<open>l2\<close> at the end of the block, exit completes and leaves, for
  every key: the value of \<open>l2\<close> when the key is in the list and bound in \<open>l2\<close>; otherwise
  its pre-scope state in \<open>l\<close> (bound to the same value, or unbound). So a listed name that
  is unbound at the end of the block raises no error and goes back to its pre-scope
  state: it is absent from the result only if it was absent before the scope.
\<close>

theorem preserve_list_exit:
  "''self'' \<notin> set (map fst kw) \<Longrightarrow>
   \<exists>mgr. ScopeContextManager_init [PyList (map PyStr ns)] kw = Inr mgr
     \<and> ScopeContextManager_exit (fst (ScopeContextManager_enter mgr l)) exc l2 =
         (Inr PyNone,
          (\<lambda>k. if k \<in> set (map PyStr ns) \<and> l2 k \<noteq> None then l2 k else l k))"
  by (simp add: ScopeContextManager_init_def enter_eq exit_preserve_list list_all_iff)

text \<open>The fourth example of the docstring, \<^verbatim>\<open>with scope(['c', 'b'], a=3, b=5): c = a + b\<close>:
  afterwards \<open>a\<close> is 7 again, \<open>b\<close> keeps 5 and \<open>c\<close> keeps 8.\<close>

theorem preserve_list_exit_witness:
  "''self'' \<notin> set (map fst [(''a'', 3 :: int), (''b'', 5)])
   \<and> with_scope [PyList [PyStr ''c'', PyStr ''b'']] [(''a'', 3), (''b'', 5)] assign_c_sum pre_scope
     = (None, [PyStr ''a'' \<mapsto> 7, PyStr ''b'' \<mapsto> 5, PyStr ''c'' \<mapsto> 8])"
  using preserve_list_exit [of "[(''a'', 3), (''b'', 5)]" "[''c'', ''b'']" pre_scope None
      "snd (assign_c_sum (snd (ScopeContextManager_enter
          \<lparr>initial_values = [(''a'', 3), (''b'', 5)],
           vars_to_preserve = Some [PyStr ''c'', PyStr ''b''], old_locals = None\<rparr> pre_scope)))"]
  by (auto simp: with_scope_def with_guard_def assign_c_sum_def case_prod_beta pre_scope_def
      ScopeContextManager_init_def ScopeContextManager_enter_def kwargs_items_def fun_eq_iff)

text \<open>
  C1 as the specification words it says that a listed name that is absent at the end of
  the block is absent from the result. With \<^verbatim>\<open>a, b = 7, 9\<close> and
  \<^verbatim>\<open>with scope(['b']): del b\<close>, the name \<open>b\<close> is absent at the end of the block and bound
  to 9 after the scope.
\<close>

theorem preserve_list_deleted_name_counterexample:
  "snd (del_name ''b'' pre_scope) (PyStr ''b'') = None
   \<and> with_scope [PyList [PyStr ''b'']] [] (del_name ''b'') pre_scope = (None, pre_scope)
   \<and> pre_scope (PyStr ''b'') = Some 9"
  by (auto simp: with_scope_def with_guard_def del_name_def pre_scope_def
      ScopeContextManager_init_def enter_eq kwargs_items_def exit_preserve_list fun_eq_iff)

section \<open>Construction\<close>

text \<open>
  C5, as the code has it. For keyword arguments none of which is named \<open>self\<close>, the
  constructor accepts no positional argument (with no keyword argument the preserve list
  is empty, mode A; with keyword arguments it is \<^verbatim>\<open>None\<close>, mode B) and one positional
  argument that is a list (mode C, with or without keyword arguments), and it raises
  \<^verbatim>\<open>ValueError\<close> for exactly the other shapes: two or more positional arguments, and one
  positional argument that is not a list. A keyword argument named \<open>self\<close> makes the call
  raise \<^verbatim>\<open>TypeError\<close>, whatever the positional arguments. Nothing else is raised.
  Construction only builds the instance: the caller's locals are not among its inputs,
  and a \<^verbatim>\<open>with\<close> statement whose constructor raises leaves them as they were.
\<close>

theorem init_argument_shapes:
  "(''self'' \<notin> set (map fst kw) \<longrightarrow>
      ScopeContextManager_init [] kw =
        Inr \<lparr>initial_values = kw, vars_to_preserve = (if kw = [] then Some [] else None),
             old_locals = None\<rparr>
    \<and> ScopeContextManager_init [PyList names] kw =
        Inr \<lparr>initial_values = kw, vars_to_preserve = Some names, old_locals = None\<rparr>)
   \<and> ((\<exists>mgr. ScopeContextManager_init args kw = Inr mgr) =
        (''self'' \<notin> set (map fst kw) \<and> (args = [] \<or> (\<exists>xs. args = [PyList xs]))))
   \<and> ((ScopeContextManager_init args kw = Inl ValueError) =
        (''self'' \<notin> set (map fst kw) \<and> args \<noteq> [] \<and> (\<forall>xs. args \<noteq> [PyList xs])))
   \<and> ((ScopeContextManager_init args kw = Inl TypeError) = (''self'' \<in> set (map fst kw)))
   \<and> (\<forall>e. ScopeContextManager_init args kw = Inl e \<longrightarrow>
        (e = ValueError \<or> e = TypeError) \<and> with_scope args kw block l = (Some e, l))"
  by (auto simp: ScopeContextManager_init_def with_scope_def split: list.splits pyobj.splits)

text \<open>\<^verbatim>\<open>scope([1, 2], ['extra'])\<close> and \<^verbatim>\<open>scope("notalist")\<close> raise \<^verbatim>\<open>ValueError\<close>;
  \<^verbatim>\<open>scope(['c'], a=3)\<close> is a preserve-list guard and \<^verbatim>\<open>scope(a=3)\<close> a keyword-only one.\<close>

theorem init_argument_shapes_witness:
  "ScopeContextManager_init [PyList [PyInt 1, PyInt 2], PyList [PyStr ''extra'']] ([] :: int kwargs)
     = Inl ValueError
   \<and> ScopeContextManager_init [PyStr ''notalist''] ([] :: int kwargs) = Inl ValueError
   \<and> with_scope [PyStr ''notalist''] [] assign_abc pre_scope = (Some ValueError, pre_scope)
   \<and> ScopeContextManager_init [PyList [PyStr ''c'']] [(''a'', 3 :: int)] =
       Inr \<lparr>initial_values = [(''a'', 3)], vars_to_preserve = Some [PyStr ''c''],
            old_locals = None\<rparr>
   \<and> ScopeContextManager_init [] [(''a'', 3 :: int)] =
       Inr \<lparr>initial_values = [(''a'', 3)], vars_to_preserve = None, old_locals = None\<rparr>"
  using init_argument_shapes [of "[]::int kwargs" "[PyStr ''c'']"
      "[PyList [PyInt 1, PyInt 2], PyList [PyStr ''extra'']]" assign_abc pre_scope]
    init_argument_shapes [of "[]::int kwargs" "[PyStr ''c'']" "[PyStr ''notalist'']"
      assign_abc pre_scope]
    init_argument_shapes [of "[(''a'', 3 :: int)]" "[PyStr ''c'']" "[]" assign_abc pre_scope]
  by simp

text \<open>
  C5 as the specification words it says that zero positional arguments always succeed
  and that one positional argument that is a sequence of names succeeds.
  \<^verbatim>\<open>scope(self=3)\<close> has no positional argument and raises \<^verbatim>\<open>TypeError\<close>, which is neither
  success nor the invalid-arguments error; \<^verbatim>\<open>scope(('c',))\<close> passes a tuple of names and
  raises \<^verbatim>\<open>ValueError\<close>, since the test is for the list type.
\<close>

theorem init_keyword_self_counterexample:
  "ScopeContextManager_init [] [(''self'', 3 :: int)] = Inl TypeError
   \<and> ScopeContextManager_init [PyTuple [PyStr ''c'']] ([] :: int kwargs) = Inl ValueError"
  by (simp add: ScopeContextManager_init_def)

section \<open>Entry\<close>

text \<open>
  C6. Entry stores the caller's locals as they are before the scope in \<open>old_locals\<close>, also
  for the names that \<open>initial_values\<close> is about to overwrite, and changes nothing else of
  the instance. The live mapping after entry is the pre-scope mapping overridden by
  \<open>initial_values\<close>: a name that is a keyword is bound to the keyword's value, and every
  other key is as it was. (\<open>rev\<close> says that a later item would win over an earlier one
  with the same key; the keys of real keyword arguments are distinct.)
\<close>

theorem enter_copies_then_injects:
  "old_locals (fst (ScopeContextManager_enter mgr l)) = Some l
   \<and> initial_values (fst (ScopeContextManager_enter mgr l)) = initial_values mgr
   \<and> vars_to_preserve (fst (ScopeContextManager_enter mgr l)) = vars_to_preserve mgr
   \<and> snd (ScopeContextManager_enter mgr l) =
       l ++ map_of (rev (kwargs_items (initial_values mgr)))
   \<and> (distinct (map fst (initial_values mgr)) \<longrightarrow>
        (\<forall>n. snd (ScopeContextManager_enter mgr l) (PyStr n) =
               (case map_of (initial_values mgr) n of
                  Some v \<Rightarrow> Some v
                | None \<Rightarrow> l (PyStr n))))
   \<and> (\<forall>k. (\<forall>n. k \<noteq> PyStr n) \<longrightarrow> snd (ScopeContextManager_enter mgr l) k = l k)"
proof -
  let ?kw = "initial_values mgr"
  have inj: "map fst (kwargs_items ?kw) = map PyStr (map fst ?kw)"
    by (simp add: kwargs_items_def case_prod_beta)
  have "map_of (rev (kwargs_items ?kw)) = map_of (kwargs_items ?kw)"
    if "distinct (map fst ?kw)"
    using that by (intro map_of_rev_distinct) (simp add: inj distinct_map inj_on_def)
  moreover have "map_of (rev (kwargs_items ?kw)) k = None" if "\<forall>n. k \<noteq> PyStr n" for k
    using that by (auto simp: map_of_eq_None_iff kwargs_items_def)
  ultimately show ?thesis
    by (auto simp: enter_eq map_add_def map_of_kwargs_items split: option.splits)
qed

text \<open>Entering \<^verbatim>\<open>scope(a=3, c=8)\<close> with \<^verbatim>\<open>a, b = 7, 9\<close>: \<open>old_locals\<close> has \<open>a\<close> at 7.\<close>

theorem enter_copies_then_injects_witness:
  "old_locals (fst (ScopeContextManager_enter
      \<lparr>initial_values = [(''a'', 3), (''c'', 8)], vars_to_preserve = None, old_locals = None\<rparr>
      pre_scope)) = Some pre_scope
   \<and> snd (ScopeContextManager_enter
      \<lparr>initial_values = [(''a'', 3), (''c'', 8)], vars_to_preserve = None, old_locals = None\<rparr>
      pre_scope) = [PyStr ''a'' \<mapsto> 3, PyStr ''b'' \<mapsto> 9, PyStr ''c'' \<mapsto> 8]
   \<and> pre_scope (PyStr ''a'') = Some 7"
  using enter_copies_then_injects [of
      "\<lparr>initial_values = [(''a'', 3), (''c'', 8)], vars_to_preserve = None, old_locals = None\<rparr>"
      pre_scope]
  by (auto simp: kwargs_items_def pre_scope_def fun_eq_iff map_add_def)

section \<open>Order and repetition in the preserve list\<close>

text \<open>
  C10. Two preserve lists with the same set of entries give the same exit: the same
  outcome and the same locals, for every instance, every mapping at the end of the block
  and whether or not the block raised.
\<close>

theorem preserve_list_order_irrelevant:
  "set names1 = set names2 \<Longrightarrow>
   ScopeContextManager_exit (mgr\<lparr>vars_to_preserve := Some names1\<rparr>) exc l =
   ScopeContextManager_exit (mgr\<lparr>vars_to_preserve := Some names2\<rparr>) exc l"
proof -
  assume eq: "set names1 = set names2"
  then have h: "list_all hashable names1 = list_all hashable names2"
    by (simp add: list_all_iff)
  have "update_items d (items_of l names1) = update_items d (items_of l names2)" for d
    using eq by (simp add: fun_eq_iff update_items_items_of)
  with h show ?thesis
    by (simp add: ScopeContextManager_exit_def preserved_items_eq Let_def
        split: option.splits)
qed

text \<open>\<^verbatim>\<open>['c', 'b']\<close> and \<^verbatim>\<open>['b', 'c', 'b']\<close> after \<^verbatim>\<open>a, b = 3, 5; c = 8\<close>.\<close>

theorem preserve_list_order_irrelevant_witness:
  "set [PyStr ''c'', PyStr ''b''] = set [PyStr ''b'', PyStr ''c'', PyStr ''b'']
   \<and> ScopeContextManager_exit
       \<lparr>initial_values = [], vars_to_preserve = Some [PyStr ''c'', PyStr ''b''],
        old_locals = Some pre_scope\<rparr> None (snd (assign_abc pre_scope)) =
     ScopeContextManager_exit
       \<lparr>initial_values = [], vars_to_preserve = Some [PyStr ''b'', PyStr ''c'', PyStr ''b''],
        old_locals = Some pre_scope\<rparr> None (snd (assign_abc pre_scope))
   \<and> snd (ScopeContextManager_exit
       \<lparr>initial_values = [], vars_to_preserve = Some [PyStr ''b'', PyStr ''c'', PyStr ''b''],
        old_locals = Some pre_scope\<rparr> None (snd (assign_abc pre_scope))) =
       [PyStr ''a'' \<mapsto> 7, PyStr ''b'' \<mapsto> 5, PyStr ''c'' \<mapsto> 8]"
proof -
  have s: "set [PyStr ''c'', PyStr ''b''] = set [PyStr ''b'', PyStr ''c'', PyStr ''b'']"
    by auto
  show ?thesis
    using s preserve_list_order_irrelevant [OF s, of
        "\<lparr>initial_values = [], vars_to_preserve = None, old_locals = Some pre_scope\<rparr>"
        None "snd (assign_abc pre_scope)"]
    by (auto simp: exit_preserve_list assign_abc_def pre_scope_def fun_eq_iff)
qed

section \<open>Full reset and the empty preserve list\<close>

text \<open>
  C9. \<^verbatim>\<open>scope()\<close> and \<^verbatim>\<open>scope([])\<close> construct the same instance, so a \<^verbatim>\<open>with\<close> statement
  behaves the same with either, for every block and every pre-scope mapping: the same
  entry, the same exit, the same outcome. Both reset everything, and so does the empty
  preserve list together with any keyword arguments.
\<close>

theorem full_reset_is_empty_preserve_list:
  "ScopeContextManager_init [] ([] :: 'v kwargs) = ScopeContextManager_init [PyList []] []
   \<and> with_scope [] [] block l = with_scope [PyList []] [] block l
   \<and> snd (with_scope [] [] block l) = l
   \<and> snd (with_scope [PyList []] kw block l) = l"
  by (simp add: ScopeContextManager_init_def with_scope_def with_guard_def enter_eq
      exit_preserve_list case_prod_beta)

theorem full_reset_is_empty_preserve_list_witness:
  "with_scope [] [] assign_abc pre_scope = with_scope [PyList []] [] assign_abc pre_scope
   \<and> with_scope [PyList []] [] assign_abc pre_scope = (None, pre_scope)
   \<and> snd (with_scope [PyList []] [(''a'', 3), (''b'', 5)] assign_c_sum pre_scope) = pre_scope"
  using full_reset_is_empty_preserve_list [of assign_abc pre_scope "[]"]
    full_reset_is_empty_preserve_list [of assign_c_sum pre_scope "[(''a'', 3), (''b'', 5)]"]
  by (auto simp: with_scope_def with_guard_def ScopeContextManager_init_def enter_eq
      exit_preserve_list case_prod_beta assign_abc_def)

section \<open>A block that raises\<close>

text \<open>
  What holds of every raising block. When the block raises \<open>e\<close>, exit does to the locals
  exactly what it does when the block ends normally with the same mapping, in either
  mode. Whenever exit returns, it returns \<^verbatim>\<open>None\<close>, which is not a true value, so exit
  never suppresses the error: the \<^verbatim>\<open>with\<close> statement raises, with the locals exit left.
  What it raises is \<open>e\<close> itself when exit returned, and exit's own error when exit raised.
\<close>

lemma block_error_outcome:
  "ScopeContextManager_exit (mgr :: 'v ScopeContextManager) (Some e) l2 =
     ScopeContextManager_exit mgr None l2
   \<and> (\<forall>ret l3. ScopeContextManager_exit mgr (Some e) l2 = (Inr ret, l3) \<longrightarrow>
        ret = PyNone \<and> \<not> truthy ret)
   \<and> (block (snd (ScopeContextManager_enter mgr l)) = (Some e, l2) \<longrightarrow>
        with_guard mgr block l =
          (case ScopeContextManager_exit (fst (ScopeContextManager_enter mgr l)) None l2 of
             (Inl e', l3) \<Rightarrow> (Some e', fst (ScopeContextManager_enter mgr l), l3)
           | (Inr ret, l3) \<Rightarrow> (Some e, fst (ScopeContextManager_enter mgr l), l3)))"
proof -
  have a: "ScopeContextManager_exit m (Some e) d = ScopeContextManager_exit m None d"
    for m :: "'v ScopeContextManager" and d
    by (rule exit_ignores_exception)
  have b: "ret = PyNone \<and> \<not> truthy ret"
    if "ScopeContextManager_exit m x d = (Inr ret, l3)"
    for m :: "'v ScopeContextManager" and x d ret l3
    using exit_returns_None [OF that] by simp
  have c: "with_guard mgr block l =
      (case ScopeContextManager_exit (fst (ScopeContextManager_enter mgr l)) None l2 of
         (Inl e', l3) \<Rightarrow> (Some e', fst (ScopeContextManager_enter mgr l), l3)
       | (Inr ret, l3) \<Rightarrow> (Some e, fst (ScopeContextManager_enter mgr l), l3))"
    if blk: "block (snd (ScopeContextManager_enter mgr l)) = (Some e, l2)"
  proof (cases "ScopeContextManager_exit (fst (ScopeContextManager_enter mgr l)) None l2")
    case (Pair r l3)
    show ?thesis
    proof (cases r)
      case (Inl e')
      with Pair blk show ?thesis
        by (simp add: with_guard_def case_prod_beta a)
    next
      case (Inr ret)
      with Pair blk b [of _ None l2 ret l3] show ?thesis
        by (simp add: with_guard_def case_prod_beta a)
    qed
  qed
  from a b c show ?thesis by blast
qed

text \<open>\<^verbatim>\<open>with scope(['c']): a, b = 3, 5; c = 8; raise Exception('boom')\<close> ends with the
  same locals as the block without the \<^verbatim>\<open>raise\<close>, and the exception comes out.\<close>

lemma block_error_outcome_example:
  "with_scope [PyList [PyStr ''c'']] [] assign_abc_then_raise pre_scope =
     (Some (Exception ''boom''), [PyStr ''a'' \<mapsto> 7, PyStr ''b'' \<mapsto> 9, PyStr ''c'' \<mapsto> 8])
   \<and> with_scope [PyList [PyStr ''c'']] [] assign_abc pre_scope =
     (None, [PyStr ''a'' \<mapsto> 7, PyStr ''b'' \<mapsto> 9, PyStr ''c'' \<mapsto> 8])"
  using block_error_outcome [of
      "fst (ScopeContextManager_enter
         \<lparr>initial_values = [], vars_to_preserve = Some [PyStr ''c''], old_locals = None\<rparr>
         pre_scope)"
      "Exception ''boom''" "snd (assign_abc pre_scope)" assign_abc_then_raise pre_scope]
  by (auto simp: with_scope_def with_guard_def ScopeContextManager_init_def enter_eq
      exit_preserve_list case_prod_beta assign_abc_def assign_abc_then_raise_def
      kwargs_items_def pre_scope_def fun_eq_iff)

section \<open>Two scopes in sequence\<close>

text \<open>
  C8. Two \<^verbatim>\<open>with\<close> statements in sequence over the same locals, headed by the instances
  at \<open>p1\<close> and \<open>p2\<close> of any store (two instances, or the same one twice): the outcome and
  the final locals are those of the first guard's entry, block and exit rule on the
  initial mapping, followed by the second guard's on the mapping that results. Each
  guard contributes through its two configuration attributes only; what the first
  statement leaves in the store has no part in the second.
\<close>

theorem sequential_scopes_compose:
  "(case two_scopes p1 block1 p2 block2 (h, l) of (exc, h', l') \<Rightarrow> (exc, l')) =
     (case scope_effect (initial_values (h p1)) (vars_to_preserve (h p1)) block1 l of
        (Some e, l1) \<Rightarrow> (Some e, l1)
      | (None, l1) \<Rightarrow>
          scope_effect (initial_values (h p2)) (vars_to_preserve (h p2)) block2 l1)"
proof -
  obtain exc mgr' l1 where w: "with_guard (h p1) block1 l = (exc, mgr', l1)"
    by (cases "with_guard (h p1) block1 l")
  have e1: "scope_effect (initial_values (h p1)) (vars_to_preserve (h p1)) block1 l = (exc, l1)"
    using with_guard_stale [of "h p1" block1 l] w by simp
  have cfg: "initial_values ((h(p1 := mgr')) p2) = initial_values (h p2)
      \<and> vars_to_preserve ((h(p1 := mgr')) p2) = vars_to_preserve (h p2)"
    using with_guard_config [OF w] by simp
  show ?thesis
  proof (cases exc)
    case None
    have "(case with_stmt p2 block2 (h(p1 := mgr'), l1) of (exc, h', l') \<Rightarrow> (exc, l')) =
        scope_effect (initial_values (h p2)) (vars_to_preserve (h p2)) block2 l1"
      using with_guard_stale [of "(h(p1 := mgr')) p2" block2 l1] cfg
      by (simp add: with_stmt_def case_prod_beta)
    with None w e1 show ?thesis
      by (simp add: two_scopes_def with_stmt_def)
  next
    case (Some e)
    with w e1 show ?thesis
      by (simp add: two_scopes_def with_stmt_def)
  qed
qed

text \<open>\<^verbatim>\<open>with scope(a=3): b = 5; c = a + b\<close> followed by a second scope around
  \<^verbatim>\<open>a, b = 3, 5; c = 8\<close>, once headed by \<^verbatim>\<open>scope(['c'])\<close> and once by the first instance
  again.\<close>

theorem sequential_scopes_compose_witness:
  "fst (two_scopes 0 assign_b_then_c_sum 1 assign_abc (example_guards, pre_scope)) = None
   \<and> snd (snd (two_scopes 0 assign_b_then_c_sum 1 assign_abc (example_guards, pre_scope))) =
       [PyStr ''a'' \<mapsto> 7, PyStr ''b'' \<mapsto> 5, PyStr ''c'' \<mapsto> 8]
   \<and> snd (snd (two_scopes 0 assign_b_then_c_sum 0 assign_abc (example_guards, pre_scope))) =
       [PyStr ''a'' \<mapsto> 7, PyStr ''b'' \<mapsto> 5, PyStr ''c'' \<mapsto> 8]"
proof -
  have e1: "scope_effect [(''a'', 3)] None assign_b_then_c_sum pre_scope =
      (None, [PyStr ''a'' \<mapsto> 7, PyStr ''b'' \<mapsto> 5, PyStr ''c'' \<mapsto> 8])"
    by (auto simp: scope_effect_def with_guard_def enter_eq kwargs_items_def keyword_exit_eq
        assign_b_then_c_sum_def assign_c_sum_def pre_scope_def fun_eq_iff)
  have e2: "scope_effect [] (Some [PyStr ''c'']) assign_abc
        [PyStr ''a'' \<mapsto> 7, PyStr ''b'' \<mapsto> 5, PyStr ''c'' \<mapsto> 8] =
      (None, [PyStr ''a'' \<mapsto> 7, PyStr ''b'' \<mapsto> 5, PyStr ''c'' \<mapsto> 8])"
    by (auto simp: scope_effect_def with_guard_def enter_eq kwargs_items_def exit_preserve_list
        assign_abc_def fun_eq_iff)
  have e3: "scope_effect [(''a'', 3)] None assign_abc
        [PyStr ''a'' \<mapsto> 7, PyStr ''b'' \<mapsto> 5, PyStr ''c'' \<mapsto> 8] =
      (None, [PyStr ''a'' \<mapsto> 7, PyStr ''b'' \<mapsto> 5, PyStr ''c'' \<mapsto> 8])"
    by (auto simp: scope_effect_def with_guard_def enter_eq kwargs_items_def keyword_exit_eq
        assign_abc_def fun_eq_iff)
  show ?thesis
    using sequential_scopes_compose [of 0 assign_b_then_c_sum 1 assign_abc example_guards pre_scope]
      sequential_scopes_compose [of 0 assign_b_then_c_sum 0 assign_abc example_guards pre_scope]
    by (simp add: example_guards_def e1 e2 e3 case_prod_beta)
qed

section \<open>Keyword-only mode\<close>

text \<open>
  What the keyword-only branch does when it completes. For distinct keywords, none of
  them named \<open>self\<close>, and a block that leaves bound every keyword that was not bound before the scope:
  construction succeeds, entry binds every keyword to its value, and exit completes,
  puts every keyword back to its pre-scope state (its old value, or unbound) and leaves
  every other key as the block left it.
\<close>

lemma keyword_only_scope:
  assumes "kw \<noteq> []" and "distinct (map fst kw)"
    and "\<forall>n \<in> set (map fst kw). l (PyStr n) = None \<longrightarrow> l2 (PyStr n) \<noteq> None"
    and "''self'' \<notin> set (map fst kw)"
  shows "\<exists>mgr. ScopeContextManager_init [] kw = Inr mgr
     \<and> (\<forall>n v. (n, v) \<in> set kw \<longrightarrow> snd (ScopeContextManager_enter mgr l) (PyStr n) = Some v)
     \<and> ScopeContextManager_exit (fst (ScopeContextManager_enter mgr l)) exc l2 =
         (Inr PyNone, (\<lambda>k. if k \<in> PyStr ` set (map fst kw) then l k else l2 k))"
proof -
  let ?mgr = "\<lparr>initial_values = kw, vars_to_preserve = None, old_locals = None\<rparr>"
  have i: "ScopeContextManager_init [] kw = Inr ?mgr"
    using assms(1,4) by (simp add: ScopeContextManager_init_def)
  have d': "distinct (map fst (kwargs_items kw))"
    using assms(2) by (simp add: kwargs_items_def case_prod_beta distinct_map inj_on_def
        comp_def)
  have "snd (ScopeContextManager_enter ?mgr l) (PyStr n) = Some v" if "(n, v) \<in> set kw" for n v
    using that assms(2) by (simp add: enter_eq map_add_def map_of_rev_distinct [OF d']
        map_of_kwargs_items)
  moreover have "ScopeContextManager_exit (fst (ScopeContextManager_enter ?mgr l)) exc l2 =
      (Inr PyNone, (\<lambda>k. if k \<in> PyStr ` set (map fst kw) then l k else l2 k))"
    using assms(2,3) by (simp add: enter_eq keyword_exit_eq)
  ultimately show ?thesis using i by blast
qed

text \<open>The fifth example of the docstring, \<^verbatim>\<open>with scope(a=3): b = 5; c = a + b\<close>: only \<open>a\<close>
  is reset.\<close>

lemma keyword_only_scope_example:
  "with_scope [] [(''a'', 3)] assign_b_then_c_sum pre_scope =
     (None, [PyStr ''a'' \<mapsto> 7, PyStr ''b'' \<mapsto> 5, PyStr ''c'' \<mapsto> 8])"
  using keyword_only_scope [of "[(''a'', 3)]" pre_scope
      "snd (assign_b_then_c_sum (pre_scope(PyStr ''a'' \<mapsto> 3)))" None]
  by (auto simp: with_scope_def with_guard_def ScopeContextManager_init_def enter_eq
      kwargs_items_def keyword_exit_eq assign_b_then_c_sum_def assign_c_sum_def pre_scope_def
      fun_eq_iff)

text \<open>
  C3. With \<^verbatim>\<open>a, b = 7, 9\<close> and \<^verbatim>\<open>with scope(c=8, a=3): del c\<close>, the keyword \<open>c\<close> was not
  bound before the scope and is not bound at the end of the block. The loop of the
  keyword-only branch reaches \<^verbatim>\<open>del l['c']\<close> first, which raises \<^verbatim>\<open>KeyError\<close>, and never
  gets to \<open>a\<close>: after the scope \<open>a\<close> is 3, not its pre-scope value 7.
\<close>

theorem keyword_exit_leaves_later_keyword:
  "with_scope [] [(''c'', 8), (''a'', 3)] (del_name ''c'') pre_scope =
     (Some (KeyError (PyStr ''c'')), [PyStr ''a'' \<mapsto> 3, PyStr ''b'' \<mapsto> 9])
   \<and> pre_scope (PyStr ''a'') = Some 7"
  by (auto simp: with_scope_def with_guard_def ScopeContextManager_init_def
      ScopeContextManager_enter_def ScopeContextManager_exit_def kwargs_items_def
      kwargs_keys_def contains_def getitem_def delitem_def del_name_def pre_scope_def
      fun_eq_iff)

text \<open>
  C4. With \<^verbatim>\<open>a, b = 7, 9\<close> and \<^verbatim>\<open>with scope(c=8): del c\<close>, construction and entry succeed,
  the block ends normally, and exit raises \<^verbatim>\<open>KeyError('c')\<close>: the keyword-only branch
  deletes a keyword that was not bound before the scope without testing that it is
  still bound. (The preserve-list branch tests \<^verbatim>\<open>name in l\<close> and raises nothing for a
  list of names.)
\<close>

theorem keyword_exit_deleted_name_raises:
  "with_scope [] [(''c'', 8)] (del_name ''c'') pre_scope =
     (Some (KeyError (PyStr ''c'')), pre_scope)"
  by (auto simp: with_scope_def with_guard_def ScopeContextManager_init_def
      ScopeContextManager_enter_def ScopeContextManager_exit_def kwargs_items_def
      kwargs_keys_def contains_def getitem_def delitem_def del_name_def pre_scope_def
      fun_eq_iff)

text \<open>
  C7. With \<^verbatim>\<open>a, b = 7, 9\<close> and \<^verbatim>\<open>with scope(c=8, a=3): del c; raise Exception('boom')\<close>,
  the block raises \<^verbatim>\<open>Exception('boom')\<close>. Exit then raises \<^verbatim>\<open>KeyError('c')\<close> at
  \<^verbatim>\<open>del l['c']\<close>, as it does for the same block without the \<^verbatim>\<open>raise\<close>: the error that
  leaves the \<^verbatim>\<open>with\<close> statement is the \<^verbatim>\<open>KeyError\<close>, not the block's error, and the
  restore is cut short, \<open>a\<close> staying at 3.
\<close>

theorem block_error_replaced_by_exit_error:
  "fst (del_name_then_raise ''c'' (pre_scope(PyStr ''c'' \<mapsto> 8, PyStr ''a'' \<mapsto> 3))) =
     Some (Exception ''boom'')
   \<and> with_scope [] [(''c'', 8), (''a'', 3)] (del_name_then_raise ''c'') pre_scope =
     (Some (KeyError (PyStr ''c'')), [PyStr ''a'' \<mapsto> 3, PyStr ''b'' \<mapsto> 9])
   \<and> pre_scope (PyStr ''a'') = Some 7"
  by (auto simp: with_scope_def with_guard_def ScopeContextManager_init_def
      ScopeContextManager_enter_def ScopeContextManager_exit_def kwargs_items_def
      kwargs_keys_def contains_def getitem_def delitem_def del_name_then_raise_def
      del_name_def pre_scope_def fun_eq_iff)

end
